theory Spec2Isabelle
  imports Main
begin

section \<open>Data model of the endorser (package endorser, src/unnamed/part_000)\<close>

text \<open>
  Byte slices are lists of characters (a \<open>char\<close> is a byte), so that the source's
  \<open>string(args[0]) == "deploy"\<close> is plain equality. A nil slice and an empty slice are
  both \<open>[]\<close>. A Go pointer that the source tests against nil, or that a protobuf
  message may leave unset, is an \<open>option\<close>.
\<close>

type_synonym bytes = string

record Response =
  Status :: int
  Message :: string
  Payload :: bytes

record ChaincodeEvent =
  ce_ChaincodeId :: string
  ce_TxId :: string
  ce_EventName :: string
  ce_Payload :: bytes

record ChaincodeID =
  Path :: string
  Name :: string
  Version :: string

datatype ChaincodeSpec_Type = UNDEFINED | GOLANG | NODE | CAR | JAVA

record ChaincodeInput =
  Args :: "bytes list"
  Decorations :: "(string \<times> bytes) list"

record ChaincodeSpec =
  cs_Type :: ChaincodeSpec_Type
  cs_ChaincodeId :: "ChaincodeID option"
  cs_Input :: "ChaincodeInput option"

record ChaincodeInvocationSpec =
  cis_ChaincodeSpec :: "ChaincodeSpec option"

record ChaincodeDeploymentSpec =
  cds_ChaincodeSpec :: "ChaincodeSpec option"
  cds_CodePackage :: bytes

record SignedProposal =
  sp_ProposalBytes :: bytes
  sp_Signature :: bytes

record Proposal =
  prop_Header :: bytes
  prop_Payload :: bytes
  prop_Extension :: bytes

record Header =
  hdr_ChannelHeader :: bytes
  hdr_SignatureHeader :: bytes

record ChannelHeader =
  ChannelId :: string
  TxId :: string

record SignatureHeader =
  Creator :: bytes
  Nonce :: bytes

record ChaincodeHeaderExtension =
  PayloadVisibility :: bytes
  hdrExt_ChaincodeId :: ChaincodeID

record Endorsement =
  Endorser :: bytes
  Signature :: bytes

record ProposalResponse =
  pr_Version :: int
  pr_Response :: "Response option"
  pr_Payload :: bytes
  pr_Endorsement :: "Endorsement option"

text \<open>\<open>resourcesconfig.ChaincodeDefinition\<close>, implemented by \<open>ccprovider.ChaincodeData\<close>:
  the methods \<open>CCName\<close>, \<open>CCVersion\<close> and \<open>Endorsement\<close> read these fields.\<close>

record ChaincodeData =
  CCName :: string
  CCVersion :: string
  cd_Endorsement :: string
  cd_Validation :: string

datatype TxSimulator = TxSimulator nat

datatype HistoryQueryExecutor = HistoryQueryExecutor nat

type_synonym TxPvtReadWriteSet = bytes

record TxSimulationResults =
  PubSimulationResults :: bytes
  PvtSimulationResults :: "TxPvtReadWriteSet option"

text \<open>The two values that \<open>context.WithValue\<close> binds on the request's context.\<close>

record Context =
  TXSimulatorKey :: "TxSimulator option"
  HistoryQueryExecutorKey :: "HistoryQueryExecutor option"

record CCContext =
  cc_ChainID :: string
  cc_Name :: string
  cc_Version :: string
  cc_TxID :: string
  cc_Syscc :: bool
  cc_SignedProposal :: SignedProposal
  cc_Proposal :: Proposal
  cc_ProposalDecorations :: "(string \<times> bytes) list"

definition NewCCContext ::
  "string \<Rightarrow> string \<Rightarrow> string \<Rightarrow> string \<Rightarrow> bool \<Rightarrow> SignedProposal \<Rightarrow> Proposal \<Rightarrow> CCContext" where
  "NewCCContext cid name version txid syscc signedProp prop =
     \<lparr>cc_ChainID = cid, cc_Name = name, cc_Version = version, cc_TxID = txid,
      cc_Syscc = syscc, cc_SignedProposal = signedProp, cc_Proposal = prop,
      cc_ProposalDecorations = []\<rparr>"

subsection \<open>Errors\<close>

text \<open>
  \<open>External m\<close> is an error value handed back by a collaborator, with its message;
  \<open>Errorf m\<close> is \<open>errors.Errorf\<close>/\<open>errors.New\<close> with the rendered message;
  \<open>WithMessage\<close> and \<open>Wrap\<close> are the two wrappers of \<open>github.com/pkg/errors\<close>;
  \<open>chaincodeError\<close> is the struct of the source's errors section.
\<close>

datatype error =
    External string
  | Errorf string
  | WithMessage error string
  | Wrap error string
  | chaincodeError int string

definition digit_char :: "nat \<Rightarrow> char" where
  "digit_char d = (''0123456789abcdef'') ! d"

fun show_nat :: "nat \<Rightarrow> string" where
  "show_nat n = (if n < 10 then [digit_char n] else show_nat (n div 10) @ [digit_char (n mod 10)])"

declare show_nat.simps [simp del]

definition show_int :: "int \<Rightarrow> string" where
  "show_int i = (if i < 0 then CHR ''-'' # show_nat (nat (- i)) else show_nat (nat i))"

definition hex_bytes :: "bytes \<Rightarrow> string" where
  "hex_bytes bs = concat (map (\<lambda>c. [digit_char (of_char c div 16), digit_char (of_char c mod 16)]) bs)"

fun Error :: "error \<Rightarrow> string" where
  "Error (External m) = m"
| "Error (Errorf m) = m"
| "Error (WithMessage e m) = m @ '': '' @ Error e"
| "Error (Wrap e m) = m @ '': '' @ Error e"
| "Error (chaincodeError st m) =
     ''chaincode error (status: '' @ show_int st @ '', message: '' @ m @ '')''"

text \<open>A function of the source returns its values, an error, or panics (a nil
  dereference or an explicit \<open>panic\<close>).\<close>

datatype 'a result = Ok 'a | Err error | Panic string

definition nil_dereference :: string where
  "nil_dereference = ''invalid memory address or nil pointer dereference''"

text \<open>Modelled from the spec: the constants \<open>shim.OK\<close>, \<open>shim.ERRORTHRESHOLD\<close> and
  \<open>shim.ERROR\<close> of package shim, which is not among the sources. The spec's status space
  is \<open><400\<close> success-like, \<open>\<ge>400\<close> and \<open><500\<close> chaincode-level error, \<open>\<ge>500\<close>
  validation or infrastructure error; the comment above the threshold test in
  \<open>callChaincode\<close> says the same.\<close>

definition OK :: int where "OK = 200"
definition ERRORTHRESHOLD :: int where "ERRORTHRESHOLD = 400"
definition ERROR :: int where "ERROR = 500"

section \<open>Collaborators\<close>

text \<open>
  Everything the endorser calls outside its own file is a parameter. The packages
  \<open>putils\<close>, \<open>syscc\<close>, \<open>util\<close>, \<open>ccprovider\<close> and \<open>decoration\<close> give functions of
  their arguments alone. The ledger, the access-control provider, the chaincode
  execution engine, the proposal validator and the private-data distributor read and
  change the peer's state: each takes the state of the world \<open>'w\<close> and returns its
  result with the new one. A collaborator that returns \<open>error\<close> alone gives
  \<open>None\<close> for nil.
\<close>

record 'w env =
  IsSysCC :: "string \<Rightarrow> bool"
  IsSysCCAndNotInvokableExternal :: "string \<Rightarrow> bool"
  GetSysCCVersion :: string
  javaEnabled :: bool
  UnmarshalChannelHeader :: "bytes \<Rightarrow> error + ChannelHeader"
  GetSignatureHeader :: "bytes \<Rightarrow> error + SignatureHeader"
  GetChaincodeInvocationSpec :: "Proposal \<Rightarrow> error + ChaincodeInvocationSpec"
  GetChaincodeDeploymentSpec :: "bytes \<Rightarrow> error + ChaincodeDeploymentSpec"
  GetCCPackage :: "bytes \<Rightarrow> error + ChaincodeDeploymentSpec"
  GetBytesChaincodeEvent :: "ChaincodeEvent \<Rightarrow> error + bytes"
  GetBytesResponse :: "Response option \<Rightarrow> error + bytes"
  Marshal :: "ChaincodeID \<Rightarrow> error + bytes"
  GetProposalResponse :: "bytes \<Rightarrow> error + ProposalResponse option"
  CreateProposalResponseFailure ::
    "bytes \<Rightarrow> bytes \<Rightarrow> Response \<Rightarrow> bytes \<Rightarrow> bytes \<Rightarrow> ChaincodeID \<Rightarrow> bytes
       \<Rightarrow> error + ProposalResponse"
  Apply :: "Proposal \<Rightarrow> ChaincodeInput \<Rightarrow> ChaincodeInput"
  ValidateProposalMessage ::
    "SignedProposal \<Rightarrow> 'w
       \<Rightarrow> (error + Proposal \<times> Header \<times> ChaincodeHeaderExtension) \<times> 'w"
  GetLedger :: "string \<Rightarrow> 'w \<Rightarrow> bool \<times> 'w"
  GetTransactionByID :: "string \<Rightarrow> string \<Rightarrow> 'w \<Rightarrow> error option \<times> 'w"
  CheckACL :: "string \<Rightarrow> SignedProposal \<Rightarrow> 'w \<Rightarrow> error option \<times> 'w"
  NewTxSimulator :: "string \<Rightarrow> string \<Rightarrow> 'w \<Rightarrow> (error + TxSimulator) \<times> 'w"
  NewHistoryQueryExecutor :: "string \<Rightarrow> 'w \<Rightarrow> (error + HistoryQueryExecutor) \<times> 'w"
  Done :: "TxSimulator \<Rightarrow> 'w \<Rightarrow> unit \<times> 'w"
  GetChaincodeDefinition ::
    "Context \<Rightarrow> string \<Rightarrow> SignedProposal \<Rightarrow> Proposal \<Rightarrow> string \<Rightarrow> string \<Rightarrow> 'w
       \<Rightarrow> (error + ChaincodeData) \<times> 'w"
  CheckInsantiationPolicy :: "string \<Rightarrow> string \<Rightarrow> ChaincodeData \<Rightarrow> 'w \<Rightarrow> error option \<times> 'w"
  ExecuteChaincode ::
    "Context \<Rightarrow> CCContext \<Rightarrow> bytes list \<Rightarrow> 'w
       \<Rightarrow> (error + Response option \<times> ChaincodeEvent option) \<times> 'w"
  Execute :: "Context \<Rightarrow> CCContext \<Rightarrow> ChaincodeDeploymentSpec \<Rightarrow> 'w \<Rightarrow> error option \<times> 'w"
  GetTxSimulationResults :: "TxSimulator \<Rightarrow> 'w \<Rightarrow> (error + TxSimulationResults) \<times> 'w"
  distributePrivateData ::
    "string \<Rightarrow> string \<Rightarrow> TxPvtReadWriteSet \<Rightarrow> 'w \<Rightarrow> error option \<times> 'w"
  GetPubSimulationBytes :: "TxSimulationResults \<Rightarrow> 'w \<Rightarrow> (error + bytes) \<times> 'w"

subsection \<open>The trace of collaborator calls\<close>

text \<open>Each call that touches the peer's state is recorded, with its arguments and the
  result it gave, in the order the calls are made.\<close>

datatype event =
    EvValidateProposalMessage SignedProposal
  | EvGetLedger string bool
  | EvGetTransactionByID string string "error option"
  | EvCheckACL string "error option"
  | EvNewTxSimulator string string "error + TxSimulator"
  | EvNewHistoryQueryExecutor string "error + HistoryQueryExecutor"
  | EvDone TxSimulator
  | EvGetChaincodeDefinition Context string string "error + ChaincodeData"
  | EvCheckInsantiationPolicy string string "error option"
  | EvExecuteChaincode Context CCContext "bytes list"
      "error + Response option \<times> ChaincodeEvent option"
  | EvExecute Context CCContext ChaincodeDeploymentSpec "error option"
  | EvGetTxSimulationResults TxSimulator "error + TxSimulationResults"
  | EvDistributePrivateData string string TxPvtReadWriteSet "error option"
  | EvGetPubSimulationBytes TxSimulationResults "error + bytes"

record 'w state =
  world :: 'w
  trace :: "event list"

definition init :: "'w \<Rightarrow> 'w state" where
  "init w = \<lparr>world = w, trace = []\<rparr>"

definition call :: "('w \<Rightarrow> 'a \<times> 'w) \<Rightarrow> ('a \<Rightarrow> event) \<Rightarrow> 'w state \<Rightarrow> 'a \<times> 'w state" where
  "call f ev s = (case f (world s) of (r, w') \<Rightarrow> (r, \<lparr>world = w', trace = trace s @ [ev r]\<rparr>))"

section \<open>The endorser\<close>

subsection \<open>getTxSimulator, getHistoryQueryExecutor, checkACL, checkEsccAndVscc\<close>

definition checkACL ::
  "'w env \<Rightarrow> SignedProposal \<Rightarrow> ChannelHeader \<Rightarrow> SignatureHeader \<Rightarrow> ChaincodeHeaderExtension
     \<Rightarrow> 'w state \<Rightarrow> error option \<times> 'w state" where
  "checkACL env signedProp chdr shdr hdrext s =
     call (CheckACL env (ChannelId chdr) signedProp) (EvCheckACL (ChannelId chdr)) s"

definition checkEsccAndVscc :: "Proposal \<Rightarrow> error option" where
  "checkEsccAndVscc prop = None"

definition getTxSimulator ::
  "'w env \<Rightarrow> string \<Rightarrow> string \<Rightarrow> 'w state \<Rightarrow> (error + TxSimulator) \<times> 'w state" where
  "getTxSimulator env ledgername txid s =
     (case call (GetLedger env ledgername) (EvGetLedger ledgername) s of
        (False, s1) \<Rightarrow> (Inl (Errorf (''channel does not exist: '' @ ledgername)), s1)
      | (True, s1) \<Rightarrow>
          call (NewTxSimulator env ledgername txid) (EvNewTxSimulator ledgername txid) s1)"

definition getHistoryQueryExecutor ::
  "'w env \<Rightarrow> string \<Rightarrow> 'w state \<Rightarrow> (error + HistoryQueryExecutor) \<times> 'w state" where
  "getHistoryQueryExecutor env ledgername s =
     (case call (GetLedger env ledgername) (EvGetLedger ledgername) s of
        (False, s1) \<Rightarrow> (Inl (Errorf (''channel does not exist: '' @ ledgername)), s1)
      | (True, s1) \<Rightarrow>
          call (NewHistoryQueryExecutor env ledgername) (EvNewHistoryQueryExecutor ledgername) s1)"

subsection \<open>callChaincode\<close>

text \<open>
  The simulator, when there is one, is bound on the context; the input is decorated;
  the engine runs the chaincode. An engine error is returned as it is. A response at or
  above \<open>ERRORTHRESHOLD\<close> is returned with no event. For \<open>lscc\<close> with at least three
  arguments, the first of them \<open>deploy\<close> or \<open>upgrade\<close>, the deployment spec of the third
  argument is read and the deployed chaincode is executed on the same context.
  The decorated input also replaces \<open>cis.ChaincodeSpec.Input\<close>; no caller reads \<open>cis\<close>
  afterwards, so the model does not return it.
\<close>

definition callChaincode ::
  "'w env \<Rightarrow> Context \<Rightarrow> string \<Rightarrow> string \<Rightarrow> string \<Rightarrow> SignedProposal \<Rightarrow> Proposal
     \<Rightarrow> ChaincodeInvocationSpec \<Rightarrow> ChaincodeID \<Rightarrow> TxSimulator option \<Rightarrow> 'w state
     \<Rightarrow> (Response option \<times> ChaincodeEvent option) result \<times> 'w state" where
  "callChaincode env ctxt0 chainID version txid signedProp prop cis cid txsim s =
    (let ctxt = (case txsim of None \<Rightarrow> ctxt0 | Some t \<Rightarrow> ctxt0\<lparr>TXSimulatorKey := Some t\<rparr>);
         scc = IsSysCC env (Name cid);
         cccid0 = NewCCContext chainID (Name cid) version txid scc signedProp prop
     in case cis_ChaincodeSpec cis of
          None \<Rightarrow> (Panic nil_dereference, s)
        | Some spec \<Rightarrow>
       (case cs_Input spec of
          None \<Rightarrow> (Panic nil_dereference, s)
        | Some input0 \<Rightarrow>
       (let input = Apply env prop (input0\<lparr>Decorations := []\<rparr>);
            cccid = cccid0\<lparr>cc_ProposalDecorations := Decorations input\<rparr>
        in case call (ExecuteChaincode env ctxt cccid (Args input))
                     (EvExecuteChaincode ctxt cccid (Args input)) s of
             (Inl err, s1) \<Rightarrow> (Err err, s1)
           | (Inr (None, ccevent), s1) \<Rightarrow> (Panic nil_dereference, s1)
           | (Inr (Some res, ccevent), s1) \<Rightarrow>
          if Status res \<ge> ERRORTHRESHOLD then (Ok (Some res, None), s1)
          else if Name cid = ''lscc'' \<and> length (Args input) \<ge> 3
                  \<and> (Args input ! 0 = ''deploy'' \<or> Args input ! 0 = ''upgrade'') then
            (case GetChaincodeDeploymentSpec env (Args input ! 2) of
               Inl err \<Rightarrow> (Err err, s1)
             | Inr cds \<Rightarrow>
            (case cds_ChaincodeSpec cds of
               None \<Rightarrow> (Panic nil_dereference, s1)
             | Some dspec \<Rightarrow>
            (case cs_ChaincodeId dspec of
               None \<Rightarrow> (Panic nil_dereference, s1)
             | Some dcid \<Rightarrow>
               if IsSysCC env (Name dcid) then
                 (Err (Errorf (''attempting to deploy a system chaincode '' @ Name dcid
                               @ ''/'' @ chainID)), s1)
               else
                 (let cccid2 = NewCCContext chainID (Name dcid) (Version dcid) txid False
                                 signedProp prop
                  in case call (Execute env ctxt cccid2 cds) (EvExecute ctxt cccid2 cds) s1 of
                       (Some err, s2) \<Rightarrow> (Err err, s2)
                     | (None, s2) \<Rightarrow> (Ok (Some res, ccevent), s2)))))
          else (Ok (Some res, ccevent), s1))))"

subsection \<open>disableJavaCCInst\<close>

text \<open>Only \<open>lscc\<close> with \<open>install\<close>, \<open>deploy\<close> or \<open>upgrade\<close> is looked at. The
  package's deployment spec is read from argument 1 (install) or 2 (deploy, upgrade);
  its \<open>ChaincodeSpec\<close> is dereferenced only when Java is disabled.\<close>

definition disableJavaCCInst ::
  "'w env \<Rightarrow> ChaincodeID \<Rightarrow> ChaincodeInvocationSpec \<Rightarrow> unit result" where
  "disableJavaCCInst env cid cis =
    (if Name cid \<noteq> ''lscc'' then Ok ()
     else case cis_ChaincodeSpec cis of
            None \<Rightarrow> Ok ()
          | Some spec \<Rightarrow>
         (case cs_Input spec of
            None \<Rightarrow> Ok ()
          | Some input \<Rightarrow>
            if length (Args input) < 1 then Ok ()
            else
              (case (if Args input ! 0 = ''install'' then Some (1::nat)
                     else if Args input ! 0 = ''deploy'' \<or> Args input ! 0 = ''upgrade''
                     then Some 2 else None) of
                 None \<Rightarrow> Ok ()
               | Some argNo \<Rightarrow>
                   if argNo \<ge> length (Args input) then
                     Err (Errorf (''too few arguments passed. expected '' @ show_nat argNo))
                   else
                     (case GetCCPackage env (Args input ! argNo) of
                        Inl err \<Rightarrow> Err err
                      | Inr cds \<Rightarrow>
                          if javaEnabled env then Ok ()
                          else
                            (case cds_ChaincodeSpec cds of
                               None \<Rightarrow> Panic nil_dereference
                             | Some dspec \<Rightarrow>
                                 if cs_Type dspec = JAVA then
                                   Err (Errorf ''Java chaincode is work-in-progress and disabled'')
                                 else Ok ())))))"

subsection \<open>getCDSFromLSCC and simulateProposal\<close>

definition getCDSFromLSCC ::
  "'w env \<Rightarrow> Context \<Rightarrow> string \<Rightarrow> string \<Rightarrow> SignedProposal \<Rightarrow> Proposal \<Rightarrow> string
     \<Rightarrow> TxSimulator option \<Rightarrow> 'w state \<Rightarrow> (error + ChaincodeData) \<times> 'w state" where
  "getCDSFromLSCC env ctx chainID txid signedProp prop chaincodeID txsim s =
    (let ctxt = (case txsim of None \<Rightarrow> ctx | Some t \<Rightarrow> ctx\<lparr>TXSimulatorKey := Some t\<rparr>)
     in call (GetChaincodeDefinition env ctxt txid signedProp prop chainID chaincodeID)
             (EvGetChaincodeDefinition ctxt chainID chaincodeID) s)"

text \<open>The result is the chaincode definition (none for a system chaincode), the
  response, the public simulation bytes and the event.\<close>

definition simulateProposal ::
  "'w env \<Rightarrow> Context \<Rightarrow> string \<Rightarrow> string \<Rightarrow> SignedProposal \<Rightarrow> Proposal \<Rightarrow> ChaincodeID
     \<Rightarrow> TxSimulator option \<Rightarrow> 'w state
     \<Rightarrow> (ChaincodeData option \<times> Response option \<times> bytes \<times> ChaincodeEvent option) result
         \<times> 'w state" where
  "simulateProposal env ctx chainID txid signedProp prop cid txsim s =
    (case GetChaincodeInvocationSpec env prop of
       Inl err \<Rightarrow> (Err err, s)
     | Inr cis \<Rightarrow>
    (case disableJavaCCInst env cid cis of
       Panic m \<Rightarrow> (Panic m, s)
     | Err err \<Rightarrow> (Err err, s)
     | Ok _ \<Rightarrow>
    (case checkEsccAndVscc prop of
       Some err \<Rightarrow> (Err err, s)
     | None \<Rightarrow>
    (case (if \<not> IsSysCC env (Name cid) then
             (case getCDSFromLSCC env ctx chainID txid signedProp prop (Name cid) txsim s of
                (Inl err, s1) \<Rightarrow>
                  (Inl (WithMessage err (''make sure the chaincode '' @ Name cid
                     @ '' has been successfully instantiated and try again'')), s1)
              | (Inr cdLedger, s1) \<Rightarrow>
                  (case call (CheckInsantiationPolicy env (Name cid) (CCVersion cdLedger) cdLedger)
                             (EvCheckInsantiationPolicy (Name cid) (CCVersion cdLedger)) s1 of
                     (Some err, s2) \<Rightarrow> (Inl err, s2)
                   | (None, s2) \<Rightarrow> (Inr (Some cdLedger, CCVersion cdLedger), s2)))
           else (Inr (None, GetSysCCVersion env), s)) of
       (Inl err, s2) \<Rightarrow> (Err err, s2)
     | (Inr (cdLedger, version), s2) \<Rightarrow>
    (case callChaincode env ctx chainID version txid signedProp prop cis cid txsim s2 of
       (Panic m, s3) \<Rightarrow> (Panic m, s3)
     | (Err err, s3) \<Rightarrow> (Err err, s3)
     | (Ok (res, ccevent), s3) \<Rightarrow>
    (case txsim of
       None \<Rightarrow> (Ok (cdLedger, res, [], ccevent), s3)
     | Some sim \<Rightarrow>
    (case call (GetTxSimulationResults env sim) (EvGetTxSimulationResults sim) s3 of
       (Inl err, s4) \<Rightarrow> (Err err, s4)
     | (Inr simResult, s4) \<Rightarrow>
    (case (case PvtSimulationResults simResult of
             None \<Rightarrow> (None, s4)
           | Some pvt \<Rightarrow> call (distributePrivateData env chainID txid pvt)
                              (EvDistributePrivateData chainID txid pvt) s4) of
       (Some err, s5) \<Rightarrow> (Err err, s5)
     | (None, s5) \<Rightarrow>
    (case call (GetPubSimulationBytes env simResult) (EvGetPubSimulationBytes simResult) s5 of
       (Inl err, s6) \<Rightarrow> (Err err, s6)
     | (Inr pubSimResBytes, s6) \<Rightarrow> (Ok (cdLedger, res, pubSimResBytes, ccevent), s6))))))))))"

subsection \<open>endorseProposal\<close>

text \<open>\<open>ccid\<close> is a pointer and \<open>endorseProposal\<close> assigns its \<open>Version\<close>: the model
  returns the chaincode id as the call leaves it, beside the result.\<close>

definition endorseProposal ::
  "'w env \<Rightarrow> Context \<Rightarrow> string \<Rightarrow> string \<Rightarrow> SignedProposal \<Rightarrow> Proposal \<Rightarrow> Response option
     \<Rightarrow> bytes \<Rightarrow> ChaincodeEvent option \<Rightarrow> bytes \<Rightarrow> ChaincodeID \<Rightarrow> TxSimulator option
     \<Rightarrow> ChaincodeData option \<Rightarrow> 'w state
     \<Rightarrow> (ProposalResponse option result \<times> ChaincodeID) \<times> 'w state" where
  "endorseProposal env ctx chainID txid signedProp proposal response simRes event visibility
       ccid txsim cd s =
    (case (case cd of
             None \<Rightarrow> Some ''escc''
           | Some d \<Rightarrow> if cd_Endorsement d = [] then None else Some (cd_Endorsement d)) of
       None \<Rightarrow> ((Panic ''No ESCC specified in ChaincodeData'', ccid), s)
     | Some escc \<Rightarrow>
    (case (case event of None \<Rightarrow> Inr [] | Some e \<Rightarrow> GetBytesChaincodeEvent env e) of
       Inl err \<Rightarrow> ((Err (Wrap err ''failed to marshal event bytes''), ccid), s)
     | Inr eventBytes \<Rightarrow>
    (case GetBytesResponse env response of
       Inl err \<Rightarrow> ((Err (Wrap err ''failed to marshal response bytes''), ccid), s)
     | Inr resBytes \<Rightarrow>
    (let ccid' = (case cd of
                    None \<Rightarrow> ccid\<lparr>Version := GetSysCCVersion env\<rparr>
                  | Some d \<Rightarrow> ccid\<lparr>Version := CCVersion d\<rparr>)
     in case Marshal env ccid' of
          Inl err \<Rightarrow> ((Err (Wrap err ''failed to marshal ChaincodeID''), ccid'), s)
        | Inr ccidBytes \<Rightarrow>
       (let args = [[], prop_Header proposal, prop_Payload proposal, ccidBytes, resBytes,
                    simRes, eventBytes, visibility];
            version = GetSysCCVersion env;
            ecccis = \<lparr>cis_ChaincodeSpec = Some
                       \<lparr>cs_Type = GOLANG,
                        cs_ChaincodeId = Some \<lparr>Path = [], Name = escc, Version = []\<rparr>,
                        cs_Input = Some \<lparr>Args = args, Decorations = []\<rparr>\<rparr>\<rparr>
        in case callChaincode env ctx chainID version txid signedProp proposal ecccis
                  \<lparr>Path = [], Name = escc, Version = []\<rparr> txsim s of
             (Panic m, s1) \<Rightarrow> ((Panic m, ccid'), s1)
           | (Err err, s1) \<Rightarrow> ((Err err, ccid'), s1)
           | (Ok (None, _), s1) \<Rightarrow> ((Panic nil_dereference, ccid'), s1)
           | (Ok (Some res, _), s1) \<Rightarrow>
               if Status res \<ge> ERRORTHRESHOLD then
                 ((Ok (Some \<lparr>pr_Version = 0, pr_Response = Some res, pr_Payload = [],
                              pr_Endorsement = None\<rparr>), ccid'), s1)
               else
                 (case GetProposalResponse env (Payload res) of
                    Inl err \<Rightarrow> ((Err err, ccid'), s1)
                  | Inr pResp \<Rightarrow> ((Ok pResp, ccid'), s1)))))))"

subsection \<open>ProcessProposal\<close>

text \<open>\<open>ProcessProposal\<close> returns a pair of a response pointer and an error, or panics.\<close>

datatype outcome = Return "ProposalResponse option" "error option" | Panicked string

text \<open>\<open>&pb.ProposalResponse{Response: &pb.Response{Status: 500, Message: err.Error()}}, err\<close>\<close>

definition failure_response :: "error \<Rightarrow> ProposalResponse" where
  "failure_response err =
     \<lparr>pr_Version = 0,
      pr_Response = Some \<lparr>Status = 500, Message = Error err, Payload = []\<rparr>,
      pr_Payload = [], pr_Endorsement = None\<rparr>"

definition failure :: "error \<Rightarrow> outcome" where
  "failure err = Return (Some (failure_response err)) (Some err)"

text \<open>
  The part of \<open>ProcessProposal\<close> from \<open>//1 -- simulate\<close> to its end, which runs with
  the simulator already obtained (or none, for a chainless proposal): simulate; on a
  response at or above \<open>shim.ERROR\<close> build the failure response and return it with a
  \<open>chaincodeError\<close>; otherwise endorse (a chainless proposal is not endorsed) and set
  the payload of the response. \<open>endorseProposal\<close> leaves a new version in
  \<open>hdrExt.ChaincodeId\<close>, which is not read again.
\<close>

definition ProcessProposal_simulate_endorse ::
  "'w env \<Rightarrow> Context \<Rightarrow> string \<Rightarrow> string \<Rightarrow> SignedProposal \<Rightarrow> Proposal
     \<Rightarrow> ChaincodeHeaderExtension \<Rightarrow> TxSimulator option \<Rightarrow> 'w state \<Rightarrow> outcome \<times> 'w state" where
  "ProcessProposal_simulate_endorse env ctx chainID txid signedProp prop hdrExt txsim s =
    (case simulateProposal env ctx chainID txid signedProp prop (hdrExt_ChaincodeId hdrExt)
            txsim s of
       (Panic m, s1) \<Rightarrow> (Panicked m, s1)
     | (Err err, s1) \<Rightarrow> (failure err, s1)
     | (Ok (cd, res, simulationResult, ccevent), s1) \<Rightarrow>
    (case (case res of
             None \<Rightarrow> None
           | Some r \<Rightarrow> if Status r \<ge> ERROR then Some r else None) of
       Some r \<Rightarrow>
         (case (case ccevent of None \<Rightarrow> Inr [] | Some e \<Rightarrow> GetBytesChaincodeEvent env e) of
            Inl err \<Rightarrow> (Return None (Some (Wrap err ''failed to marshal event bytes'')), s1)
          | Inr cceventBytes \<Rightarrow>
              (case CreateProposalResponseFailure env (prop_Header prop) (prop_Payload prop) r
                      simulationResult cceventBytes (hdrExt_ChaincodeId hdrExt)
                      (PayloadVisibility hdrExt) of
                 Inl err \<Rightarrow> (failure err, s1)
               | Inr pResp \<Rightarrow>
                   (Return (Some pResp) (Some (chaincodeError (Status r) (Message r))), s1)))
     | None \<Rightarrow>
    (case (if chainID = [] then
             (Inr (Some \<lparr>pr_Version = 0, pr_Response = res, pr_Payload = [],
                         pr_Endorsement = None\<rparr>), s1)
           else
             (case endorseProposal env ctx chainID txid signedProp prop res simulationResult
                     ccevent (PayloadVisibility hdrExt) (hdrExt_ChaincodeId hdrExt) txsim cd s1 of
                ((Panic m, _), s2) \<Rightarrow> (Inl (Panicked m), s2)
              | ((Err err, _), s2) \<Rightarrow> (Inl (failure err), s2)
              | ((Ok None, _), s2) \<Rightarrow> (Inr None, s2)
              | ((Ok (Some p), _), s2) \<Rightarrow>
                  (case res of
                     None \<Rightarrow> (Inl (Panicked nil_dereference), s2)
                   | Some r \<Rightarrow>
                       if Status r \<ge> ERRORTHRESHOLD then
                         (Inl (Return (Some p) (Some (chaincodeError (Status r) (Message r)))), s2)
                       else (Inr (Some p), s2)))) of
       (Inl out, s2) \<Rightarrow> (out, s2)
     | (Inr pResp, s2) \<Rightarrow>
         (case pResp of
            None \<Rightarrow> (Panicked nil_dereference, s2)
          | Some p \<Rightarrow>
         (case pr_Response p of
            None \<Rightarrow> (Panicked nil_dereference, s2)
          | Some presp \<Rightarrow>
         (case res of
            None \<Rightarrow> (Panicked nil_dereference, s2)
          | Some r \<Rightarrow>
              (Return (Some (p\<lparr>pr_Response := Some (presp\<lparr>Payload := Payload r\<rparr>)\<rparr>)) None,
               s2)))))))"

text \<open>
  Validation and the headers; the block on system chaincodes that proposals may not
  invoke; the transaction id; for a proposal on a channel the ledger lookup, the
  uniqueness check and the ACL check; then the simulator and the history query
  executor. \<open>defer txsim.Done()\<close> stands after both have been obtained: \<open>Done\<close> runs
  when the rest of the function returns or panics, and on no earlier return.
\<close>

definition ProcessProposal ::
  "'w env \<Rightarrow> Context \<Rightarrow> SignedProposal \<Rightarrow> 'w state \<Rightarrow> outcome \<times> 'w state" where
  "ProcessProposal env ctx signedProp s =
    (case call (ValidateProposalMessage env signedProp)
               (\<lambda>_. EvValidateProposalMessage signedProp) s of
       (Inl err, s1) \<Rightarrow> (failure err, s1)
     | (Inr (prop, hdr, hdrExt), s1) \<Rightarrow>
    (case UnmarshalChannelHeader env (hdr_ChannelHeader hdr) of
       Inl err \<Rightarrow> (failure err, s1)
     | Inr chdr \<Rightarrow>
    (case GetSignatureHeader env (hdr_SignatureHeader hdr) of
       Inl err \<Rightarrow> (failure err, s1)
     | Inr shdr \<Rightarrow>
    if IsSysCCAndNotInvokableExternal env (Name (hdrExt_ChaincodeId hdrExt)) then
      (failure (Errorf (''chaincode '' @ Name (hdrExt_ChaincodeId hdrExt)
                        @ '' cannot be invoked through a proposal'')), s1)
    else
    (let chainID = ChannelId chdr; txid = TxId chdr in
    if txid = [] then
      (failure (Errorf ''invalid txID. It must be different from the empty string''), s1)
    else
    (case (if chainID \<noteq> [] then
             (case call (GetLedger env chainID) (EvGetLedger chainID) s1 of
                (False, s2) \<Rightarrow>
                  (Some (Return None (Some (Errorf
                     (''failed to look up the ledger for channel '' @ chainID)))), s2)
              | (True, s2) \<Rightarrow>
             (case call (GetTransactionByID env chainID txid)
                        (EvGetTransactionByID chainID txid) s2 of
                (None, s3) \<Rightarrow>
                  (Some (Return None (Some (Errorf
                     (''duplicate transaction found ['' @ txid @ '']. Creator [''
                      @ hex_bytes (Creator shdr) @ '']'')))), s3)
              | (Some _, s3) \<Rightarrow>
                  if \<not> IsSysCC env (Name (hdrExt_ChaincodeId hdrExt)) then
                    (case checkACL env signedProp chdr shdr hdrExt s3 of
                       (Some err, s4) \<Rightarrow> (Some (failure err), s4)
                     | (None, s4) \<Rightarrow> (None, s4))
                  else (None, s3)))
           else (None, s1)) of
       (Some out, s4) \<Rightarrow> (out, s4)
     | (None, s4) \<Rightarrow>
         if chainID \<noteq> [] then
           (case getTxSimulator env chainID txid s4 of
              (Inl err, s5) \<Rightarrow> (failure err, s5)
            | (Inr txsim, s5) \<Rightarrow>
           (case getHistoryQueryExecutor env chainID s5 of
              (Inl err, s6) \<Rightarrow> (failure err, s6)
            | (Inr historyQueryExecutor, s6) \<Rightarrow>
           (case ProcessProposal_simulate_endorse env
                   (ctx\<lparr>HistoryQueryExecutorKey := Some historyQueryExecutor\<rparr>)
                   chainID txid signedProp prop hdrExt (Some txsim) s6 of
              (out, s7) \<Rightarrow> (out, snd (call (Done env txsim) (\<lambda>_. EvDone txsim) s7)))))
         else
           ProcessProposal_simulate_endorse env ctx chainID txid signedProp prop hdrExt None
             s4)))))"

section \<open>A concrete peer\<close>

text \<open>
  A peer with one channel, on which the chaincode \<open>mycc\<close> is instantiated with \<open>escc\<close>
  as its endorsement authority; every collaborator succeeds. The world is a counter
  that numbers the handles the ledger gives out. The scenarios below change one
  collaborator at a time.
\<close>

definition prop0 :: Proposal where
  "prop0 = \<lparr>prop_Header = ''hdr'', prop_Payload = ''payload'', prop_Extension = []\<rparr>"

definition sp0 :: SignedProposal where
  "sp0 = \<lparr>sp_ProposalBytes = ''proposal'', sp_Signature = ''sig''\<rparr>"

definition ctx0 :: Context where
  "ctx0 = \<lparr>TXSimulatorKey = None, HistoryQueryExecutorKey = None\<rparr>"

definition hdr0 :: Header where
  "hdr0 = \<lparr>hdr_ChannelHeader = ''chdr'', hdr_SignatureHeader = ''shdr''\<rparr>"

definition mycc :: ChaincodeID where
  "mycc = \<lparr>Path = [], Name = ''mycc'', Version = []\<rparr>"

definition hdrExt0 :: ChaincodeHeaderExtension where
  "hdrExt0 = \<lparr>PayloadVisibility = [], hdrExt_ChaincodeId = mycc\<rparr>"

definition cis_of :: "bytes list \<Rightarrow> ChaincodeInvocationSpec" where
  "cis_of args = \<lparr>cis_ChaincodeSpec = Some \<lparr>cs_Type = GOLANG, cs_ChaincodeId = Some mycc,
     cs_Input = Some \<lparr>Args = args, Decorations = []\<rparr>\<rparr>\<rparr>"

definition cds0 :: ChaincodeDeploymentSpec where
  "cds0 = \<lparr>cds_ChaincodeSpec = Some \<lparr>cs_Type = GOLANG,
       cs_ChaincodeId = Some \<lparr>Path = ''path'', Name = ''newcc'', Version = ''1.0''\<rparr>,
       cs_Input = Some \<lparr>Args = [''init''], Decorations = []\<rparr>\<rparr>,
     cds_CodePackage = ''code''\<rparr>"

definition cd0 :: ChaincodeData where
  "cd0 = \<lparr>CCName = ''mycc'', CCVersion = ''1.0'', cd_Endorsement = ''escc'',
          cd_Validation = ''vscc''\<rparr>"

definition res200 :: Response where
  "res200 = \<lparr>Status = 200, Message = ''OK'', Payload = ''result''\<rparr>"

definition endorsed :: ProposalResponse where
  "endorsed = \<lparr>pr_Version = 1,
     pr_Response = Some \<lparr>Status = 200, Message = ''OK'', Payload = []\<rparr>,
     pr_Payload = ''prp'',
     pr_Endorsement = Some \<lparr>Endorser = ''peer0'', Signature = ''signed''\<rparr>\<rparr>"

definition peer0 :: "nat env" where
  "peer0 =
    \<lparr>IsSysCC = (\<lambda>n. n \<in> set [''lscc'', ''escc'', ''vscc'', ''cscc'', ''qscc'']),
     IsSysCCAndNotInvokableExternal = (\<lambda>n. n \<in> set [''escc'', ''vscc'']),
     GetSysCCVersion = ''1.1.0'',
     javaEnabled = False,
     UnmarshalChannelHeader = (\<lambda>b. Inr \<lparr>ChannelId = ''ch1'', TxId = ''tx1''\<rparr>),
     GetSignatureHeader = (\<lambda>b. Inr \<lparr>Creator = ''alice'', Nonce = ''n''\<rparr>),
     GetChaincodeInvocationSpec = (\<lambda>p. Inr (cis_of [''invoke'', ''a''])),
     GetChaincodeDeploymentSpec = (\<lambda>b. Inr cds0),
     GetCCPackage = (\<lambda>b. Inr cds0),
     GetBytesChaincodeEvent = (\<lambda>e. Inr (ce_EventName e)),
     GetBytesResponse = (\<lambda>r. Inr (case r of None \<Rightarrow> [] | Some x \<Rightarrow> Message x)),
     Marshal = (\<lambda>c. Inr (Name c @ '':'' @ Version c)),
     GetProposalResponse = (\<lambda>b. Inr (Some endorsed)),
     CreateProposalResponseFailure = (\<lambda>h p r sim ev c vis.
       Inr \<lparr>pr_Version = 1, pr_Response = Some r, pr_Payload = sim, pr_Endorsement = None\<rparr>),
     Apply = (\<lambda>p i. i),
     ValidateProposalMessage = (\<lambda>sp w. (Inr (prop0, hdr0, hdrExt0), w)),
     GetLedger = (\<lambda>c w. (True, w)),
     GetTransactionByID = (\<lambda>c t w. (Some (External ''no such transaction''), w)),
     CheckACL = (\<lambda>c sp w. (None, w)),
     NewTxSimulator = (\<lambda>c t w. (Inr (TxSimulator w), Suc w)),
     NewHistoryQueryExecutor = (\<lambda>c w. (Inr (HistoryQueryExecutor w), Suc w)),
     Done = (\<lambda>t w. ((), w)),
     GetChaincodeDefinition = (\<lambda>ctx txid sp p c n w. (Inr cd0, w)),
     CheckInsantiationPolicy = (\<lambda>n v d w. (None, w)),
     ExecuteChaincode = (\<lambda>ctx cc args w. (Inr (Some res200, None), w)),
     Execute = (\<lambda>ctx cc cds w. (None, w)),
     GetTxSimulationResults = (\<lambda>t w.
       (Inr \<lparr>PubSimulationResults = ''pub'', PvtSimulationResults = Some ''pvt''\<rparr>, w)),
     distributePrivateData = (\<lambda>c t p w. (None, w)),
     GetPubSimulationBytes = (\<lambda>r w. (Inr (PubSimulationResults r), w))\<rparr>"
definition res500 :: Response where
  "res500 = \<lparr>Status = 500, Message = ''boom'', Payload = ''partial''\<rparr>"

text \<open>The chaincode answers with an error-class status.\<close>

definition peer_exec_error :: "nat env" where
  "peer_exec_error = peer0\<lparr>ExecuteChaincode := (\<lambda>ctx cc args w. (Inr (Some res500, None), w))\<rparr>"



text \<open>The ledger gives a simulator, and then fails to give a history query executor.\<close>

definition peer_no_history :: "nat env" where
  "peer_no_history =
     peer0\<lparr>NewHistoryQueryExecutor := (\<lambda>c w. (Inl (External ''history database closed''), w))\<rparr>"

text \<open>The proposal names \<open>escc\<close>, which proposals may not invoke.\<close>

definition escc_id :: ChaincodeID where
  "escc_id = \<lparr>Path = [], Name = ''escc'', Version = []\<rparr>"

definition peer_escc_proposal :: "nat env" where
  "peer_escc_proposal = peer0\<lparr>ValidateProposalMessage := (\<lambda>sp w.
      (Inr (prop0, hdr0, \<lparr>PayloadVisibility = [], hdrExt_ChaincodeId = escc_id\<rparr>), w))\<rparr>"

section \<open>Vocabulary for traces\<close>

datatype event_kind = KValidateProposalMessage | KGetLedger | KGetTransactionByID | KCheckACL
  | KNewTxSimulator | KNewHistoryQueryExecutor | KDone | KGetChaincodeDefinition
  | KCheckInsantiationPolicy | KExecuteChaincode | KExecute | KGetTxSimulationResults
  | KDistributePrivateData | KGetPubSimulationBytes

fun kind :: "event \<Rightarrow> event_kind" where
  "kind (EvValidateProposalMessage _) = KValidateProposalMessage"
| "kind (EvGetLedger _ _) = KGetLedger"
| "kind (EvGetTransactionByID _ _ _) = KGetTransactionByID"
| "kind (EvCheckACL _ _) = KCheckACL"
| "kind (EvNewTxSimulator _ _ _) = KNewTxSimulator"
| "kind (EvNewHistoryQueryExecutor _ _) = KNewHistoryQueryExecutor"
| "kind (EvDone _) = KDone"
| "kind (EvGetChaincodeDefinition _ _ _ _) = KGetChaincodeDefinition"
| "kind (EvCheckInsantiationPolicy _ _ _) = KCheckInsantiationPolicy"
| "kind (EvExecuteChaincode _ _ _ _) = KExecuteChaincode"
| "kind (EvExecute _ _ _ _) = KExecute"
| "kind (EvGetTxSimulationResults _ _) = KGetTxSimulationResults"
| "kind (EvDistributePrivateData _ _ _ _) = KDistributePrivateData"
| "kind (EvGetPubSimulationBytes _ _) = KGetPubSimulationBytes"

text \<open>The kinds of call that occur in a trace, the calls of the execution engine in it,
  and the calls that handle the simulation results, each in the order of the trace.\<close>

definition kinds :: "event list \<Rightarrow> event_kind set" where
  "kinds evs = kind ` set evs"

definition executions :: "event list \<Rightarrow> event list" where
  "executions evs = filter (\<lambda>e. kind e = KExecuteChaincode) evs"

definition results :: "event list \<Rightarrow> event list" where
  "results evs = filter (\<lambda>e. kind e \<in> {KGetTxSimulationResults, KDistributePrivateData,
     KGetPubSimulationBytes}) evs"

text \<open>The simulators a trace acquires (the successful calls of \<open>NewTxSimulator\<close>) and
  the simulators it releases (the calls of \<open>Done\<close>).\<close>

fun acquisitions :: "event list \<Rightarrow> TxSimulator list" where
  "acquisitions [] = []"
| "acquisitions (EvNewTxSimulator _ _ (Inr sim) # es) = sim # acquisitions es"
| "acquisitions (_ # es) = acquisitions es"

fun releases :: "event list \<Rightarrow> TxSimulator list" where
  "releases [] = []"
| "releases (EvDone sim # es) = sim # releases es"
| "releases (_ # es) = releases es"

text \<open>What a run of \<open>simulateProposal\<close> with the simulator \<open>sim\<close> does with the simulation
  results: nothing (it ended before), or the results are asked for and then, in this
  order, the private data (when there is one) is distributed and the public bytes are
  computed; a distribution that fails is the last call of the run and its error is the
  result.\<close>

definition private_data_handled ::
  "string \<Rightarrow> string \<Rightarrow> TxSimulator \<Rightarrow> 'a result \<Rightarrow> event list \<Rightarrow> bool" where
  "private_data_handled chainID txid sim r evs =
     (results evs = []
      \<or> (\<exists>e. results evs = [EvGetTxSimulationResults sim (Inl e)] \<and> r = Err e)
      \<or> (\<exists>sr y. PvtSimulationResults sr = None
            \<and> results evs = [EvGetTxSimulationResults sim (Inr sr), EvGetPubSimulationBytes sr y])
      \<or> (\<exists>sr p e. PvtSimulationResults sr = Some p \<and> r = Err e
            \<and> results evs = [EvGetTxSimulationResults sim (Inr sr),
                              EvDistributePrivateData chainID txid p (Some e)]
            \<and> evs \<noteq> [] \<and> last evs = EvDistributePrivateData chainID txid p (Some e))
      \<or> (\<exists>sr p y. PvtSimulationResults sr = Some p
            \<and> results evs = [EvGetTxSimulationResults sim (Inr sr),
                              EvDistributePrivateData chainID txid p None,
                              EvGetPubSimulationBytes sr y]))"


section \<open>The functions in stages\<close>

text \<open>
  For the proofs, the longer functions are cut at the places where the source has its
  blank lines: each stage below is a part of the function's body, with the variables
  that are live at that place as parameters. The lemmas named \<open>_stages\<close> say that
  the functions are these stages in sequence.
\<close>

text \<open>\<open>simulateProposal\<close>: the definition and version of the chaincode.\<close>

definition simulateProposal_version ::
  "'w env \<Rightarrow> Context \<Rightarrow> string \<Rightarrow> string \<Rightarrow> SignedProposal \<Rightarrow> Proposal \<Rightarrow> ChaincodeID
     \<Rightarrow> TxSimulator option \<Rightarrow> 'w state
     \<Rightarrow> (error + ChaincodeData option \<times> string) \<times> 'w state" where
  "simulateProposal_version env ctx chainID txid signedProp prp cid txsim s =
     (if \<not> IsSysCC env (Name cid) then
             (case getCDSFromLSCC env ctx chainID txid signedProp prp (Name cid) txsim s of
                (Inl err, s1) \<Rightarrow>
                  (Inl (WithMessage err (''make sure the chaincode '' @ Name cid
                     @ '' has been successfully instantiated and try again'')), s1)
              | (Inr cdLedger, s1) \<Rightarrow>
                  (case call (CheckInsantiationPolicy env (Name cid) (CCVersion cdLedger) cdLedger)
                             (EvCheckInsantiationPolicy (Name cid) (CCVersion cdLedger)) s1 of
                     (Some err, s2) \<Rightarrow> (Inl err, s2)
                   | (None, s2) \<Rightarrow> (Inr (Some cdLedger, CCVersion cdLedger), s2)))
           else (Inr (None, GetSysCCVersion env), s))"

text \<open>\<open>simulateProposal\<close>: the simulation results, once the chaincode has run.\<close>

definition simulateProposal_results ::
  "'w env \<Rightarrow> string \<Rightarrow> string \<Rightarrow> TxSimulator option \<Rightarrow> ChaincodeData option
     \<Rightarrow> Response option \<Rightarrow> ChaincodeEvent option \<Rightarrow> 'w state
     \<Rightarrow> (ChaincodeData option \<times> Response option \<times> bytes \<times> ChaincodeEvent option) result
         \<times> 'w state" where
  "simulateProposal_results env chainID txid txsim cdLedger res ccevent s3 =
    (case txsim of
       None \<Rightarrow> (Ok (cdLedger, res, [], ccevent), s3)
     | Some sim \<Rightarrow>
    (case call (GetTxSimulationResults env sim) (EvGetTxSimulationResults sim) s3 of
       (Inl err, s4) \<Rightarrow> (Err err, s4)
     | (Inr simResult, s4) \<Rightarrow>
    (case (case PvtSimulationResults simResult of
             None \<Rightarrow> (None, s4)
           | Some pvt \<Rightarrow> call (distributePrivateData env chainID txid pvt)
                              (EvDistributePrivateData chainID txid pvt) s4) of
       (Some err, s5) \<Rightarrow> (Err err, s5)
     | (None, s5) \<Rightarrow>
    (case call (GetPubSimulationBytes env simResult) (EvGetPubSimulationBytes simResult) s5 of
       (Inl err, s6) \<Rightarrow> (Err err, s6)
     | (Inr pubSimResBytes, s6) \<Rightarrow> (Ok (cdLedger, res, pubSimResBytes, ccevent), s6)))))"

text \<open>\<open>endorseProposal\<close>: the call of the endorsement chaincode and the unpacking of
  its answer.\<close>

definition endorseProposal_call ::
  "'w env \<Rightarrow> Context \<Rightarrow> string \<Rightarrow> string \<Rightarrow> SignedProposal \<Rightarrow> Proposal \<Rightarrow> bytes \<Rightarrow> bytes
     \<Rightarrow> TxSimulator option \<Rightarrow> string \<Rightarrow> bytes \<Rightarrow> bytes \<Rightarrow> ChaincodeID \<Rightarrow> bytes \<Rightarrow> 'w state
     \<Rightarrow> (ProposalResponse option result \<times> ChaincodeID) \<times> 'w state" where
  "endorseProposal_call env ctx chainID txid signedProp proposal simRes visibility txsim escc
       eventBytes resBytes ccid' ccidBytes s =
       (let args = [[], prop_Header proposal, prop_Payload proposal, ccidBytes, resBytes,
                    simRes, eventBytes, visibility];
            version = GetSysCCVersion env;
            ecccis = \<lparr>cis_ChaincodeSpec = Some
                       \<lparr>cs_Type = GOLANG,
                        cs_ChaincodeId = Some \<lparr>Path = [], Name = escc, Version = []\<rparr>,
                        cs_Input = Some \<lparr>Args = args, Decorations = []\<rparr>\<rparr>\<rparr>
        in case callChaincode env ctx chainID version txid signedProp proposal ecccis
                  \<lparr>Path = [], Name = escc, Version = []\<rparr> txsim s of
             (Panic m, s1) \<Rightarrow> ((Panic m, ccid'), s1)
           | (Err err, s1) \<Rightarrow> ((Err err, ccid'), s1)
           | (Ok (None, _), s1) \<Rightarrow> ((Panic nil_dereference, ccid'), s1)
           | (Ok (Some res, _), s1) \<Rightarrow>
               if Status res \<ge> ERRORTHRESHOLD then
                 ((Ok (Some \<lparr>pr_Version = 0, pr_Response = Some res, pr_Payload = [],
                              pr_Endorsement = None\<rparr>), ccid'), s1)
               else
                 (case GetProposalResponse env (Payload res) of
                    Inl err \<Rightarrow> ((Err err, ccid'), s1)
                  | Inr pResp \<Rightarrow> ((Ok pResp, ccid'), s1)))"

text \<open>\<open>ProcessProposal\<close>: the response for a simulation that ended with a status at or
  above \<open>shim.ERROR\<close>.\<close>

definition ProcessProposal_failed ::
  "'w env \<Rightarrow> Proposal \<Rightarrow> ChaincodeHeaderExtension \<Rightarrow> Response \<Rightarrow> bytes
     \<Rightarrow> ChaincodeEvent option \<Rightarrow> 'w state \<Rightarrow> outcome \<times> 'w state" where
  "ProcessProposal_failed env prp hdrExt r simulationResult ccevent s1 =
         (case (case ccevent of None \<Rightarrow> Inr [] | Some e \<Rightarrow> GetBytesChaincodeEvent env e) of
            Inl err \<Rightarrow> (Return None (Some (Wrap err ''failed to marshal event bytes'')), s1)
          | Inr cceventBytes \<Rightarrow>
              (case CreateProposalResponseFailure env (prop_Header prp) (prop_Payload prp) r
                      simulationResult cceventBytes (hdrExt_ChaincodeId hdrExt)
                      (PayloadVisibility hdrExt) of
                 Inl err \<Rightarrow> (failure err, s1)
               | Inr pResp \<Rightarrow>
                   (Return (Some pResp) (Some (chaincodeError (Status r) (Message r))), s1)))"

text \<open>\<open>ProcessProposal\<close>: the endorsement and the payload of the response.\<close>

definition ProcessProposal_endorse ::
  "'w env \<Rightarrow> Context \<Rightarrow> string \<Rightarrow> string \<Rightarrow> SignedProposal \<Rightarrow> Proposal
     \<Rightarrow> ChaincodeHeaderExtension \<Rightarrow> TxSimulator option \<Rightarrow> ChaincodeData option
     \<Rightarrow> Response option \<Rightarrow> bytes \<Rightarrow> ChaincodeEvent option \<Rightarrow> 'w state
     \<Rightarrow> outcome \<times> 'w state" where
  "ProcessProposal_endorse env ctx chainID txid signedProp prp hdrExt txsim cd res
       simulationResult ccevent s1 =
    (case (if chainID = [] then
             (Inr (Some \<lparr>pr_Version = 0, pr_Response = res, pr_Payload = [],
                         pr_Endorsement = None\<rparr>), s1)
           else
             (case endorseProposal env ctx chainID txid signedProp prp res simulationResult
                     ccevent (PayloadVisibility hdrExt) (hdrExt_ChaincodeId hdrExt) txsim cd s1 of
                ((Panic m, _), s2) \<Rightarrow> (Inl (Panicked m), s2)
              | ((Err err, _), s2) \<Rightarrow> (Inl (failure err), s2)
              | ((Ok None, _), s2) \<Rightarrow> (Inr None, s2)
              | ((Ok (Some p), _), s2) \<Rightarrow>
                  (case res of
                     None \<Rightarrow> (Inl (Panicked nil_dereference), s2)
                   | Some r \<Rightarrow>
                       if Status r \<ge> ERRORTHRESHOLD then
                         (Inl (Return (Some p) (Some (chaincodeError (Status r) (Message r)))), s2)
                       else (Inr (Some p), s2)))) of
       (Inl out, s2) \<Rightarrow> (out, s2)
     | (Inr pResp, s2) \<Rightarrow>
         (case pResp of
            None \<Rightarrow> (Panicked nil_dereference, s2)
          | Some p \<Rightarrow>
         (case pr_Response p of
            None \<Rightarrow> (Panicked nil_dereference, s2)
          | Some presp \<Rightarrow>
         (case res of
            None \<Rightarrow> (Panicked nil_dereference, s2)
          | Some r \<Rightarrow>
              (Return (Some (p\<lparr>pr_Response := Some (presp\<lparr>Payload := Payload r\<rparr>)\<rparr>)) None,
               s2)))))"

text \<open>\<open>ProcessProposal\<close>: the ledger lookup, the uniqueness check and the ACL check of a
  proposal on a channel; \<open>Some\<close> is an early return.\<close>

definition ProcessProposal_checks ::
  "'w env \<Rightarrow> SignedProposal \<Rightarrow> ChannelHeader \<Rightarrow> SignatureHeader \<Rightarrow> ChaincodeHeaderExtension
     \<Rightarrow> string \<Rightarrow> string \<Rightarrow> 'w state \<Rightarrow> outcome option \<times> 'w state" where
  "ProcessProposal_checks env signedProp chdr shdr hdrExt chainID txid s1 =
          (if chainID \<noteq> [] then
             (case call (GetLedger env chainID) (EvGetLedger chainID) s1 of
                (False, s2) \<Rightarrow>
                  (Some (Return None (Some (Errorf
                     (''failed to look up the ledger for channel '' @ chainID)))), s2)
              | (True, s2) \<Rightarrow>
             (case call (GetTransactionByID env chainID txid)
                        (EvGetTransactionByID chainID txid) s2 of
                (None, s3) \<Rightarrow>
                  (Some (Return None (Some (Errorf
                     (''duplicate transaction found ['' @ txid @ '']. Creator [''
                      @ hex_bytes (Creator shdr) @ '']'')))), s3)
              | (Some _, s3) \<Rightarrow>
                  if \<not> IsSysCC env (Name (hdrExt_ChaincodeId hdrExt)) then
                    (case checkACL env signedProp chdr shdr hdrExt s3 of
                       (Some err, s4) \<Rightarrow> (Some (failure err), s4)
                     | (None, s4) \<Rightarrow> (None, s4))
                  else (None, s3)))
           else (None, s1))"

text \<open>\<open>ProcessProposal\<close>: the simulator, the history query executor, and the rest of
  the function under \<open>defer txsim.Done()\<close>.\<close>

definition ProcessProposal_run ::
  "'w env \<Rightarrow> Context \<Rightarrow> string \<Rightarrow> string \<Rightarrow> SignedProposal \<Rightarrow> Proposal
     \<Rightarrow> ChaincodeHeaderExtension \<Rightarrow> 'w state \<Rightarrow> outcome \<times> 'w state" where
  "ProcessProposal_run env ctx chainID txid signedProp prp hdrExt s4 =
        (if chainID \<noteq> [] then
           (case getTxSimulator env chainID txid s4 of
              (Inl err, s5) \<Rightarrow> (failure err, s5)
            | (Inr txsim, s5) \<Rightarrow>
           (case getHistoryQueryExecutor env chainID s5 of
              (Inl err, s6) \<Rightarrow> (failure err, s6)
            | (Inr historyQueryExecutor, s6) \<Rightarrow>
           (case ProcessProposal_simulate_endorse env
                   (ctx\<lparr>HistoryQueryExecutorKey := Some historyQueryExecutor\<rparr>)
                   chainID txid signedProp prp hdrExt (Some txsim) s6 of
              (out, s7) \<Rightarrow> (out, snd (call (Done env txsim) (\<lambda>_. EvDone txsim) s7)))))
         else
           ProcessProposal_simulate_endorse env ctx chainID txid signedProp prp hdrExt None
             s4)"

text \<open>The proposal response that carries a response and nothing else,
  \<open>&pb.ProposalResponse{Response: res}\<close>, and the version that \<open>endorseProposal\<close> writes
  into the chaincode id.\<close>

definition bare_response :: "Response \<Rightarrow> ProposalResponse" where
  "bare_response res =
     \<lparr>pr_Version = 0, pr_Response = Some res, pr_Payload = [], pr_Endorsement = None\<rparr>"

definition endorsement_version :: "'w env \<Rightarrow> ChaincodeData option \<Rightarrow> string" where
  "endorsement_version env cd = (case cd of None \<Rightarrow> GetSysCCVersion env | Some d \<Rightarrow> CCVersion d)"

section \<open>Facts about the model\<close>

lemmas splits = option.splits prod.splits sum.splits if_splits result.splits

lemmas peer_defs = peer0_def prop0_def sp0_def ctx0_def hdr0_def mycc_def hdrExt0_def
  cis_of_def cds0_def cd0_def res200_def res500_def endorsed_def

lemmas model_defs = ProcessProposal_def ProcessProposal_simulate_endorse_def
  endorseProposal_def simulateProposal_def callChaincode_def getCDSFromLSCC_def
  disableJavaCCInst_def getTxSimulator_def getHistoryQueryExecutor_def checkACL_def
  checkEsccAndVscc_def call_def init_def failure_def failure_response_def NewCCContext_def
  ERRORTHRESHOLD_def ERROR_def Let_def

lemma case_prodD: "(case p of (a, b) \<Rightarrow> P a b) \<Longrightarrow> p = (x, y) \<Longrightarrow> P x y"
  by simp

lemma kinds_simps [simp]:
  "kinds [] = {}"
  "kinds (e # es) = insert (kind e) (kinds es)"
  "kinds (xs @ ys) = kinds xs \<union> kinds ys"
  by (auto simp: kinds_def)

lemma executions_simps [simp]:
  "executions [] = []"
  "executions (e # es) = (if kind e = KExecuteChaincode then e # executions es else executions es)"
  "executions (xs @ ys) = executions xs @ executions ys"
  by (simp_all add: executions_def)

lemma results_simps [simp]:
  "results [] = []"
  "results (e # es) = (if kind e \<in> {KGetTxSimulationResults, KDistributePrivateData,
     KGetPubSimulationBytes} then e # results es else results es)"
  "results (xs @ ys) = results xs @ results ys"
  by (simp_all add: results_def)

lemma in_executions:
  "e \<in> set evs \<Longrightarrow> kind e = KExecuteChaincode \<Longrightarrow> e \<in> set (executions evs)"
  by (simp add: executions_def)

lemma in_kinds: "e \<in> set evs \<Longrightarrow> kind e \<in> kinds evs"
  by (simp add: kinds_def)

subsection \<open>callChaincode\<close>

lemma callChaincode_threshold_aux:
  "case callChaincode env ctx chainID version txid sp prp cis cid txsim s of (r, s') \<Rightarrow>
     \<forall>c cc a res ev.
       EvExecuteChaincode c cc a (Inr (Some res, ev)) \<in> set (drop (length (trace s)) (trace s'))
       \<and> Status res \<ge> ERRORTHRESHOLD \<longrightarrow>
       r = Ok (Some res, None)
       \<and> trace s' = trace s @ [EvExecuteChaincode c cc a (Inr (Some res, ev))]"
  by (auto simp: callChaincode_def call_def Let_def NewCCContext_def split: splits)

lemmas callChaincode_threshold = callChaincode_threshold_aux [THEN case_prodD]



lemma callChaincode_summary_aux:
  "case callChaincode env ctx chainID version txid sp prp cis cid txsim s of (r, s') \<Rightarrow>
   \<exists>evs. trace s' = trace s @ evs
     \<and> kinds evs \<subseteq> {KExecuteChaincode, KExecute}
     \<and> length (executions evs) \<le> 1
     \<and> results evs = []
     \<and> (\<forall>ro ev. r = Ok (ro, ev) \<longrightarrow>
           (\<exists>res c cc a ev'. ro = Some res
              \<and> executions evs = [EvExecuteChaincode c cc a (Inr (Some res, ev'))]
              \<and> cc_Name cc = Name cid
              \<and> (Status res \<ge> ERRORTHRESHOLD \<longrightarrow> ev = None)
              \<and> (Status res < ERRORTHRESHOLD \<longrightarrow> ev = ev')))
     \<and> (\<forall>e. r = Err e \<longrightarrow>
           (\<exists>c cc a x. executions evs = [EvExecuteChaincode c cc a x] \<and> cc_Name cc = Name cid
              \<and> (x = Inl e \<or> (\<exists>res ev. x = Inr (Some res, ev) \<and> Status res < ERRORTHRESHOLD
                                   \<and> Name cid = ''lscc''))))
     \<and> (\<forall>m. r = Panic m \<longrightarrow> executions evs = [] \<or>
           (\<exists>c cc a x. executions evs = [EvExecuteChaincode c cc a x] \<and> cc_Name cc = Name cid
              \<and> ((\<exists>ev. x = Inr (None, ev)) \<or> (\<exists>res ev. x = Inr (Some res, ev)
                     \<and> Status res < ERRORTHRESHOLD \<and> Name cid = ''lscc''))))"
  by (auto simp: callChaincode_def call_def Let_def NewCCContext_def split: splits)

lemmas callChaincode_summary = callChaincode_summary_aux [THEN case_prodD]

subsection \<open>simulateProposal\<close>

lemma simulateProposal_stages:
  "simulateProposal env ctx chainID txid signedProp prp cid txsim s =
    (case GetChaincodeInvocationSpec env prp of
       Inl err \<Rightarrow> (Err err, s)
     | Inr cis \<Rightarrow>
    (case disableJavaCCInst env cid cis of
       Panic m \<Rightarrow> (Panic m, s)
     | Err err \<Rightarrow> (Err err, s)
     | Ok _ \<Rightarrow>
    (case checkEsccAndVscc prp of
       Some err \<Rightarrow> (Err err, s)
     | None \<Rightarrow>
    (case simulateProposal_version env ctx chainID txid signedProp prp cid txsim s of
       (Inl err, s2) \<Rightarrow> (Err err, s2)
     | (Inr (cdLedger, version), s2) \<Rightarrow>
    (case callChaincode env ctx chainID version txid signedProp prp cis cid txsim s2 of
       (Panic m, s3) \<Rightarrow> (Panic m, s3)
     | (Err err, s3) \<Rightarrow> (Err err, s3)
     | (Ok (res, ccevent), s3) \<Rightarrow>
         simulateProposal_results env chainID txid txsim cdLedger res ccevent s3)))))"
  unfolding simulateProposal_def simulateProposal_version_def simulateProposal_results_def
  by (rule refl)

lemma simulateProposal_version_events_aux:
  "case simulateProposal_version env ctx chainID txid sp prp cid txsim s of (r, s') \<Rightarrow>
   \<exists>evs. trace s' = trace s @ evs
     \<and> kinds evs \<subseteq> {KGetChaincodeDefinition, KCheckInsantiationPolicy}
     \<and> executions evs = [] \<and> results evs = []
     \<and> (\<forall>cd v. r = Inr (cd, v) \<longrightarrow> (cd = None \<longleftrightarrow> IsSysCC env (Name cid)))"
  by (auto simp: simulateProposal_version_def getCDSFromLSCC_def call_def Let_def split: splits)

lemma private_data_handled_append:
  "private_data_handled chainID txid sim r evs \<Longrightarrow> evs \<noteq> [] \<Longrightarrow> results pre = [] \<Longrightarrow>
     private_data_handled chainID txid sim r (pre @ evs)"
  by (auto simp: private_data_handled_def)

lemma simulateProposal_results_events_aux:
  "case simulateProposal_results env chainID txid txsim cd res ev s of (r, s') \<Rightarrow>
   \<exists>evs. trace s' = trace s @ evs
     \<and> kinds evs \<subseteq> {KGetTxSimulationResults, KDistributePrivateData, KGetPubSimulationBytes}
     \<and> executions evs = []
     \<and> (txsim = None \<longrightarrow> evs = [])
     \<and> (\<forall>m. r \<noteq> Panic m)
     \<and> (\<forall>x. r = Ok x \<longrightarrow> (\<exists>b. x = (cd, res, b, ev)))
     \<and> (\<forall>sim. txsim = Some sim \<longrightarrow> evs \<noteq> [] \<and> private_data_handled chainID txid sim r evs)"
  by (auto simp: simulateProposal_results_def private_data_handled_def call_def Let_def
      split: splits)

lemmas simulateProposal_version_events = simulateProposal_version_events_aux [THEN case_prodD]
lemmas simulateProposal_results_events = simulateProposal_results_events_aux [THEN case_prodD]

lemma private_data_handled_Nil: "private_data_handled chainID txid sim r []"
  by (simp add: private_data_handled_def)

lemma private_data_handled_pre:
  "results pre = [] \<Longrightarrow> private_data_handled chainID txid sim r pre"
  by (simp add: private_data_handled_def)

lemma simulateProposal_summary_aux:
  "case simulateProposal env ctx chainID txid sp prp cid txsim s of (r, s') \<Rightarrow>
   \<exists>evs. trace s' = trace s @ evs
     \<and> kinds evs \<subseteq> {KGetChaincodeDefinition, KCheckInsantiationPolicy,
            KExecuteChaincode, KExecute, KGetTxSimulationResults, KDistributePrivateData,
            KGetPubSimulationBytes}
     \<and> (txsim = None \<longrightarrow> kinds evs \<subseteq> {KGetChaincodeDefinition,
            KCheckInsantiationPolicy, KExecuteChaincode, KExecute})
     \<and> length (executions evs) \<le> 1
     \<and> (\<forall>cd ro b ev. r = Ok (cd, ro, b, ev) \<longrightarrow>
           (\<exists>res c cc a ev'. ro = Some res
              \<and> executions evs = [EvExecuteChaincode c cc a (Inr (Some res, ev'))]
              \<and> cc_Name cc = Name cid
              \<and> (Status res \<ge> ERRORTHRESHOLD \<longrightarrow> ev = None)
              \<and> (cd = None \<longleftrightarrow> IsSysCC env (Name cid))))"
  by (auto simp: simulateProposal_stages checkEsccAndVscc_def
      split: splits dest!: simulateProposal_version_events callChaincode_summary
         simulateProposal_results_events)


lemmas simulateProposal_summary = simulateProposal_summary_aux [THEN case_prodD]

lemma simulateProposal_private_aux:
  "case simulateProposal env ctx chainID txid sp prp cid (Some sim) s of (r, s') \<Rightarrow>
   \<exists>evs. trace s' = trace s @ evs \<and> private_data_handled chainID txid sim r evs"
  by (auto simp add: simulateProposal_stages checkEsccAndVscc_def private_data_handled_Nil
        private_data_handled_pre
      split: splits
      dest!: simulateProposal_version_events callChaincode_summary
         simulateProposal_results_events
      intro!: private_data_handled_append)

lemmas simulateProposal_private = simulateProposal_private_aux [THEN case_prodD]

subsection \<open>endorseProposal\<close>

lemma endorseProposal_stages:
  "endorseProposal env ctx chainID txid signedProp proposal response simRes event visibility
       ccid txsim cd s =
    (case (case cd of
             None \<Rightarrow> Some ''escc''
           | Some d \<Rightarrow> if cd_Endorsement d = [] then None else Some (cd_Endorsement d)) of
       None \<Rightarrow> ((Panic ''No ESCC specified in ChaincodeData'', ccid), s)
     | Some escc \<Rightarrow>
    (case (case event of None \<Rightarrow> Inr [] | Some e \<Rightarrow> GetBytesChaincodeEvent env e) of
       Inl err \<Rightarrow> ((Err (Wrap err ''failed to marshal event bytes''), ccid), s)
     | Inr eventBytes \<Rightarrow>
    (case GetBytesResponse env response of
       Inl err \<Rightarrow> ((Err (Wrap err ''failed to marshal response bytes''), ccid), s)
     | Inr resBytes \<Rightarrow>
    (let ccid' = (case cd of
                    None \<Rightarrow> ccid\<lparr>Version := GetSysCCVersion env\<rparr>
                  | Some d \<Rightarrow> ccid\<lparr>Version := CCVersion d\<rparr>)
     in case Marshal env ccid' of
          Inl err \<Rightarrow> ((Err (Wrap err ''failed to marshal ChaincodeID''), ccid'), s)
        | Inr ccidBytes \<Rightarrow>
            endorseProposal_call env ctx chainID txid signedProp proposal simRes visibility
              txsim escc eventBytes resBytes ccid' ccidBytes s))))"
  unfolding endorseProposal_def endorseProposal_call_def
  by (rule refl)

lemma endorseProposal_call_summary_aux:
  "case endorseProposal_call env ctx chainID txid sp prp simRes visibility txsim escc
          eventBytes resBytes ccid1 ccidBytes s of
     (rc, s') \<Rightarrow>
   \<exists>evs. trace s' = trace s @ evs
     \<and> kinds evs \<subseteq> {KExecuteChaincode, KExecute}
     \<and> length (executions evs) \<le> 1
     \<and> results evs = []
     \<and> snd rc = ccid1
     \<and> (\<forall>p. fst rc = Ok p \<longrightarrow>
           (\<exists>c cc a res ev. executions evs = [EvExecuteChaincode c cc a (Inr (Some res, ev))]
              \<and> cc_Name cc = escc
              \<and> (Status res \<ge> ERRORTHRESHOLD \<longrightarrow> p = Some (bare_response res))
              \<and> (Status res < ERRORTHRESHOLD \<longrightarrow> GetProposalResponse env (Payload res) = Inr p)))
     \<and> (\<forall>e. fst rc = Err e \<longrightarrow>
           (\<exists>c cc a x. executions evs = [EvExecuteChaincode c cc a x] \<and> cc_Name cc = escc
              \<and> (x = Inl e \<or> (\<exists>res ev. x = Inr (Some res, ev) \<and> Status res < ERRORTHRESHOLD
                     \<and> (escc = ''lscc''
                          \<or> GetProposalResponse env (Payload res) = Inl e)))))
     \<and> (\<forall>m. fst rc = Panic m \<longrightarrow> executions evs = [] \<or>
           (\<exists>c cc a x. executions evs = [EvExecuteChaincode c cc a x] \<and> cc_Name cc = escc
              \<and> ((\<exists>ev. x = Inr (None, ev)) \<or> (\<exists>res ev. x = Inr (Some res, ev)
                     \<and> Status res < ERRORTHRESHOLD \<and> escc = ''lscc''))))"
  by (auto simp: endorseProposal_call_def Let_def bare_response_def split: splits
      dest!: callChaincode_summary)


lemmas endorseProposal_call_summary = endorseProposal_call_summary_aux [THEN case_prodD]

lemma endorseProposal_summary_aux:
  "case endorseProposal env ctx chainID txid sp prp response simRes event visibility ccid
          txsim cd s of
     (rc, s') \<Rightarrow>
   \<exists>evs. trace s' = trace s @ evs
     \<and> kinds evs \<subseteq> {KExecuteChaincode, KExecute}
     \<and> length (executions evs) \<le> 1
     \<and> results evs = []
     \<and> (\<forall>p. fst rc = Ok p \<longrightarrow>
           (\<exists>c cc a res ev. executions evs = [EvExecuteChaincode c cc a (Inr (Some res, ev))]
              \<and> (Status res \<ge> ERRORTHRESHOLD \<longrightarrow> p = Some (bare_response res))
              \<and> (Status res < ERRORTHRESHOLD \<longrightarrow> GetProposalResponse env (Payload res) = Inr p)))
     \<and> (\<forall>e. fst rc = Err e \<longrightarrow> executions evs = [] \<or>
           (\<exists>c cc a x. executions evs = [EvExecuteChaincode c cc a x]
              \<and> (x = Inl e \<or> (\<exists>res ev. x = Inr (Some res, ev) \<and> Status res < ERRORTHRESHOLD
                     \<and> (cc_Name cc = ''lscc''
                          \<or> GetProposalResponse env (Payload res) = Inl e)))))
     \<and> (\<forall>m. fst rc = Panic m \<longrightarrow> executions evs = [] \<or>
           (\<exists>c cc a x. executions evs = [EvExecuteChaincode c cc a x]
              \<and> ((\<exists>ev. x = Inr (None, ev)) \<or> (\<exists>res ev. x = Inr (Some res, ev)
                     \<and> Status res < ERRORTHRESHOLD \<and> cc_Name cc = ''lscc''))))
     \<and> Name (snd rc) = Name ccid \<and> Path (snd rc) = Path ccid
     \<and> (snd rc = ccid \<or> snd rc = ccid\<lparr>Version := endorsement_version env cd\<rparr>)
     \<and> (executions evs \<noteq> [] \<longrightarrow> snd rc = ccid\<lparr>Version := endorsement_version env cd\<rparr>
           \<and> (\<exists>b. Marshal env (snd rc) = Inr b))"
  by (auto simp: endorseProposal_stages Let_def endorsement_version_def split: splits
      dest!: endorseProposal_call_summary)

lemmas endorseProposal_summary = endorseProposal_summary_aux [THEN case_prodD]


lemma endorseProposal_ccid_aux:
  "case endorseProposal env ctx chainID txid sp prp response simRes event visibility ccid
          txsim cd (init w) of
     (rc, s') \<Rightarrow>
       Name (snd rc) = Name ccid \<and> Path (snd rc) = Path ccid
     \<and> (snd rc = ccid \<or> snd rc = ccid\<lparr>Version := endorsement_version env cd\<rparr>)
     \<and> ((\<forall>d. cd = Some d \<longrightarrow> cd_Endorsement d \<noteq> [])
          \<and> (\<forall>e. event = Some e \<longrightarrow> (\<exists>b. GetBytesChaincodeEvent env e = Inr b))
          \<and> (\<exists>b. GetBytesResponse env response = Inr b)
         \<longrightarrow> snd rc = ccid\<lparr>Version := endorsement_version env cd\<rparr>)
     \<and> ((\<exists>c cc a x. EvExecuteChaincode c cc a x \<in> set (trace s'))
         \<longrightarrow> snd rc = ccid\<lparr>Version := endorsement_version env cd\<rparr>
             \<and> (\<exists>b. Marshal env (snd rc) = Inr b))"
  by (auto simp: endorseProposal_stages Let_def endorsement_version_def init_def split: splits
      dest!: endorseProposal_call_summary)

lemmas endorseProposal_ccid = endorseProposal_ccid_aux [THEN case_prodD]

section \<open>The claims\<close>

text \<open>
  C7. In \<open>callChaincode\<close>, if the execution engine returns without error a response
  whose status is at or above the error threshold, \<open>callChaincode\<close> returns that
  response with no event and no error, and makes no further call: the engine's call is
  the only event of the run, so the second execution of the lifecycle case is skipped.
\<close>

theorem callChaincode_error_status_stops:
  assumes "callChaincode env ctx chainID version txid sp prp cis cid txsim (init w) = (r, s')"
    and "EvExecuteChaincode c cc a (Inr (Some res, ev)) \<in> set (trace s')"
    and "Status res \<ge> ERRORTHRESHOLD"
  shows "r = Ok (Some res, None)
    \<and> trace s' = [EvExecuteChaincode c cc a (Inr (Some res, ev))]"
  using callChaincode_threshold [OF assms(1)] assms(2,3)
  by (simp add: init_def)

theorem callChaincode_error_status_stops_witness:
  "callChaincode peer_exec_error ctx0 ''ch1'' ''1.0'' ''tx1'' sp0 prop0 (cis_of [''invoke'', ''a''])
      mycc None (init 0)
     = (Ok (Some res500, None),
        \<lparr>world = 0, trace = [EvExecuteChaincode ctx0
           (NewCCContext ''ch1'' ''mycc'' ''1.0'' ''tx1'' False sp0 prop0)
           [''invoke'', ''a''] (Inr (Some res500, None))]\<rparr>)
   \<and> Status res500 \<ge> ERRORTHRESHOLD"
proof -
  let ?e = "EvExecuteChaincode ctx0 (NewCCContext ''ch1'' ''mycc'' ''1.0'' ''tx1'' False sp0 prop0)
           [''invoke'', ''a''] (Inr (Some res500, None))"
  have run: "callChaincode peer_exec_error ctx0 ''ch1'' ''1.0'' ''tx1'' sp0 prop0
      (cis_of [''invoke'', ''a'']) mycc None (init 0)
     = (Ok (Some res500, None), \<lparr>world = 0, trace = [?e]\<rparr>)"
    by (simp add: model_defs peer_defs peer_exec_error_def)
  have mem: "?e \<in> set (trace \<lparr>world = (0::nat), trace = [?e]\<rparr>)" by simp
  have st: "Status res500 \<ge> ERRORTHRESHOLD" by (simp add: res500_def ERRORTHRESHOLD_def)
  from callChaincode_error_status_stops [OF run mem st] run st show ?thesis by simp
qed




text \<open>
  C2. Every simulator that \<open>ProcessProposal\<close> acquires is released exactly once, also
  when obtaining the history query executor fails. The code registers
  \<open>defer txsim.Done()\<close> only after \<open>getHistoryQueryExecutor\<close> has succeeded: on the
  peer whose ledger gives a simulator and then no history query executor, the request
  acquires one simulator and releases none.
\<close>

theorem ProcessProposal_leaks_simulator:
  "acquisitions (trace (snd (ProcessProposal peer_no_history ctx0 sp0 (init 0)))) = [TxSimulator 0]
   \<and> releases (trace (snd (ProcessProposal peer_no_history ctx0 sp0 (init 0)))) = []
   \<and> fst (ProcessProposal peer_no_history ctx0 sp0 (init 0))
       = failure (External ''history database closed'')"
  by (simp add: model_defs peer_defs peer_no_history_def)

text \<open>
  C6. A proposal that validates and names a system chaincode that is not invokable
  externally is rejected with a response of status 500 and an error, whatever its
  channel id: the validation is the only call of the request, so there is no
  duplicate-transaction check, no ACL check, no ledger lookup and no simulator. When
  the two headers parse, the error is the one that says the chaincode cannot be invoked
  through a proposal.
\<close>

theorem ProcessProposal_blocks_reserved_chaincodes:
  assumes "ValidateProposalMessage env sp w = (Inr (prp, hdr, hdrExt), w1)"
    and "IsSysCCAndNotInvokableExternal env (Name (hdrExt_ChaincodeId hdrExt))"
  shows "\<exists>err. ProcessProposal env ctx sp (init w)
           = (Return (Some \<lparr>pr_Version = 0,
                 pr_Response = Some \<lparr>Status = 500, Message = Error err, Payload = []\<rparr>,
                 pr_Payload = [], pr_Endorsement = None\<rparr>) (Some err),
              \<lparr>world = w1, trace = [EvValidateProposalMessage sp]\<rparr>)
         \<and> (\<forall>chdr shdr. UnmarshalChannelHeader env (hdr_ChannelHeader hdr) = Inr chdr
               \<and> GetSignatureHeader env (hdr_SignatureHeader hdr) = Inr shdr \<longrightarrow>
               err = Errorf (''chaincode '' @ Name (hdrExt_ChaincodeId hdrExt)
                             @ '' cannot be invoked through a proposal''))"
  using assms
  by (cases "UnmarshalChannelHeader env (hdr_ChannelHeader hdr)";
      cases "GetSignatureHeader env (hdr_SignatureHeader hdr)";
      simp add: ProcessProposal_def call_def init_def failure_def failure_response_def)

theorem ProcessProposal_blocks_reserved_chaincodes_witness:
  "ValidateProposalMessage peer_escc_proposal sp0 0
     = (Inr (prop0, hdr0, \<lparr>PayloadVisibility = [], hdrExt_ChaincodeId = escc_id\<rparr>), 0)
   \<and> IsSysCCAndNotInvokableExternal peer_escc_proposal ''escc''
   \<and> ProcessProposal peer_escc_proposal ctx0 sp0 (init 0)
       = (Return (Some \<lparr>pr_Version = 0,
             pr_Response = Some \<lparr>Status = 500,
               Message = ''chaincode escc cannot be invoked through a proposal'',
               Payload = []\<rparr>,
             pr_Payload = [], pr_Endorsement = None\<rparr>)
           (Some (Errorf ''chaincode escc cannot be invoked through a proposal'')),
          \<lparr>world = 0, trace = [EvValidateProposalMessage sp0]\<rparr>)"
proof -
  let ?ext = "\<lparr>PayloadVisibility = [], hdrExt_ChaincodeId = escc_id\<rparr>"
  have v: "ValidateProposalMessage peer_escc_proposal sp0 0 = (Inr (prop0, hdr0, ?ext), 0)"
    by (simp add: peer_escc_proposal_def peer0_def)
  have b: "IsSysCCAndNotInvokableExternal peer_escc_proposal (Name (hdrExt_ChaincodeId ?ext))"
    by (simp add: peer_escc_proposal_def peer0_def escc_id_def)
  have h: "UnmarshalChannelHeader peer_escc_proposal (hdr_ChannelHeader hdr0)
             = Inr \<lparr>ChannelId = ''ch1'', TxId = ''tx1''\<rparr>"
     "GetSignatureHeader peer_escc_proposal (hdr_SignatureHeader hdr0)
             = Inr \<lparr>Creator = ''alice'', Nonce = ''n''\<rparr>"
    by (simp_all add: peer_escc_proposal_def peer0_def)
  from ProcessProposal_blocks_reserved_chaincodes [OF v b, of ctx0] h v b
  show ?thesis by (auto simp: escc_id_def)
qed

text \<open>
  C5. In \<open>endorseProposal\<close>, if the execution of the endorsement chaincode returns a
  response whose status is at or above the error threshold, \<open>endorseProposal\<close> returns,
  with no error, a proposal response that holds this response and nothing else: no
  endorsement and no payload.
\<close>

theorem endorseProposal_authority_failure:
  assumes "endorseProposal env ctx chainID txid sp prp response simRes event visibility ccid
             txsim cd (init w) = ((r, ccid'), s')"
    and "EvExecuteChaincode c cc a (Inr (Some res, ev)) \<in> set (trace s')"
    and "Status res \<ge> ERRORTHRESHOLD"
  shows "r = Ok (Some \<lparr>pr_Version = 0, pr_Response = Some res, pr_Payload = [],
                        pr_Endorsement = None\<rparr>)"
proof -
  from endorseProposal_summary [OF assms(1)] obtain evs where
    tr: "trace s' = trace (init w) @ evs" and
    ok: "\<forall>p. r = Ok p \<longrightarrow>
           (\<exists>c cc a res ev. executions evs = [EvExecuteChaincode c cc a (Inr (Some res, ev))]
              \<and> (Status res \<ge> ERRORTHRESHOLD \<longrightarrow> p = Some (bare_response res))
              \<and> (Status res < ERRORTHRESHOLD \<longrightarrow> GetProposalResponse env (Payload res) = Inr p))" and
    err: "\<forall>e. r = Err e \<longrightarrow> executions evs = [] \<or>
           (\<exists>c cc a x. executions evs = [EvExecuteChaincode c cc a x]
              \<and> (x = Inl e \<or> (\<exists>res ev. x = Inr (Some res, ev) \<and> Status res < ERRORTHRESHOLD
                     \<and> (cc_Name cc = ''lscc''
                          \<or> GetProposalResponse env (Payload res) = Inl e))))" and
    pan: "\<forall>m. r = Panic m \<longrightarrow> executions evs = [] \<or>
           (\<exists>c cc a x. executions evs = [EvExecuteChaincode c cc a x]
              \<and> ((\<exists>ev. x = Inr (None, ev)) \<or> (\<exists>res ev. x = Inr (Some res, ev)
                     \<and> Status res < ERRORTHRESHOLD \<and> cc_Name cc = ''lscc'')))"
    by auto
  from assms(2) tr have "EvExecuteChaincode c cc a (Inr (Some res, ev)) \<in> set evs"
    by (simp add: init_def)
  then have mem: "EvExecuteChaincode c cc a (Inr (Some res, ev)) \<in> set (executions evs)"
    by (rule in_executions) simp
  show ?thesis
  proof (cases r)
    case (Ok p)
    with ok mem assms(3) show ?thesis by (auto simp: bare_response_def)
  next
    case (Err e)
    with err mem assms(3) show ?thesis by auto
  next
    case (Panic m)
    with pan mem assms(3) show ?thesis by auto
  qed
qed

theorem endorseProposal_authority_failure_witness:
  "endorseProposal peer_exec_error ctx0 ''ch1'' ''tx1'' sp0 prop0 (Some res200) ''pub'' None []
       mycc (Some (TxSimulator 0)) (Some cd0) (init 0)
     = ((Ok (Some \<lparr>pr_Version = 0, pr_Response = Some res500, pr_Payload = [],
                     pr_Endorsement = None\<rparr>), mycc\<lparr>Version := ''1.0''\<rparr>),
        \<lparr>world = 0, trace = [EvExecuteChaincode (ctx0\<lparr>TXSimulatorKey := Some (TxSimulator 0)\<rparr>)
           (NewCCContext ''ch1'' ''escc'' ''1.1.0'' ''tx1'' True sp0 prop0)
           [[], ''hdr'', ''payload'', ''mycc:1.0'', ''OK'', ''pub'', [], []]
           (Inr (Some res500, None))]\<rparr>)
   \<and> Status res500 \<ge> ERRORTHRESHOLD"
proof -
  let ?e = "EvExecuteChaincode (ctx0\<lparr>TXSimulatorKey := Some (TxSimulator 0)\<rparr>)
           (NewCCContext ''ch1'' ''escc'' ''1.1.0'' ''tx1'' True sp0 prop0)
           [[], ''hdr'', ''payload'', ''mycc:1.0'', ''OK'', ''pub'', [], []]
           (Inr (Some res500, None))"
  let ?s = "\<lparr>world = (0::nat), trace = [?e]\<rparr>"
  have run: "endorseProposal peer_exec_error ctx0 ''ch1'' ''tx1'' sp0 prop0 (Some res200) ''pub''
       None [] mycc (Some (TxSimulator 0)) (Some cd0) (init 0)
     = ((Ok (Some \<lparr>pr_Version = 0, pr_Response = Some res500, pr_Payload = [],
                     pr_Endorsement = None\<rparr>), mycc\<lparr>Version := ''1.0''\<rparr>), ?s)"
    by (simp add: model_defs peer_defs peer_exec_error_def)
  have mem: "?e \<in> set (trace ?s)" by simp
  have st: "Status res500 \<ge> ERRORTHRESHOLD" by (simp add: res500_def ERRORTHRESHOLD_def)
  from endorseProposal_authority_failure [OF run mem st] run st show ?thesis by simp
qed

text \<open>
  C10. \<open>endorseProposal\<close> assigns \<open>ccid.Version\<close> through the pointer it is given: the
  chaincode id it leaves behind has the name and the path it had, and its version is
  either untouched or the version of the chaincode definition (for an ordinary
  chaincode) or the version of the system chaincodes (when there is no definition). The
  assignment stands after the choice of the endorsement chaincode and the marshalling
  of the event and of the response: when these succeed the version is overwritten, and
  so it is whenever the endorsement chaincode has been invoked, which is handed the
  marshalled bytes of the overwritten id.
\<close>

theorem endorseProposal_sets_ccid_version:
  assumes "endorseProposal env ctx chainID txid sp prp response simRes event visibility ccid
             txsim cd (init w) = ((r, ccid'), s')"
  shows "Name ccid' = Name ccid \<and> Path ccid' = Path ccid
     \<and> (ccid' = ccid
          \<or> ccid' = ccid\<lparr>Version := (case cd of None \<Rightarrow> GetSysCCVersion env
                                          | Some d \<Rightarrow> CCVersion d)\<rparr>)
     \<and> ((\<forall>d. cd = Some d \<longrightarrow> cd_Endorsement d \<noteq> [])
          \<and> (\<forall>e. event = Some e \<longrightarrow> (\<exists>b. GetBytesChaincodeEvent env e = Inr b))
          \<and> (\<exists>b. GetBytesResponse env response = Inr b)
         \<longrightarrow> ccid' = ccid\<lparr>Version := (case cd of None \<Rightarrow> GetSysCCVersion env
                                            | Some d \<Rightarrow> CCVersion d)\<rparr>)
     \<and> ((\<exists>c cc a x. EvExecuteChaincode c cc a x \<in> set (trace s'))
         \<longrightarrow> ccid' = ccid\<lparr>Version := (case cd of None \<Rightarrow> GetSysCCVersion env
                                            | Some d \<Rightarrow> CCVersion d)\<rparr>
             \<and> (\<exists>b. Marshal env ccid' = Inr b))"
  using endorseProposal_ccid [OF assms]
  unfolding endorsement_version_def snd_conv
  by blast

theorem endorseProposal_sets_ccid_version_witness:
  "endorseProposal peer0 ctx0 ''ch1'' ''tx1'' sp0 prop0 (Some res200) ''pub'' None []
       mycc (Some (TxSimulator 0)) (Some cd0) (init 0)
     = ((Ok (Some endorsed), \<lparr>Path = [], Name = ''mycc'', Version = ''1.0''\<rparr>),
        \<lparr>world = 0, trace = [EvExecuteChaincode (ctx0\<lparr>TXSimulatorKey := Some (TxSimulator 0)\<rparr>)
           (NewCCContext ''ch1'' ''escc'' ''1.1.0'' ''tx1'' True sp0 prop0)
           [[], ''hdr'', ''payload'', ''mycc:1.0'', ''OK'', ''pub'', [], []]
           (Inr (Some res200, None))]\<rparr>)
   \<and> cd_Endorsement cd0 \<noteq> []
   \<and> GetBytesResponse peer0 (Some res200) = Inr ''OK''
   \<and> Marshal peer0 \<lparr>Path = [], Name = ''mycc'', Version = ''1.0''\<rparr> = Inr ''mycc:1.0''
   \<and> mycc\<lparr>Version := CCVersion cd0\<rparr> = \<lparr>Path = [], Name = ''mycc'', Version = ''1.0''\<rparr>"
proof -
  let ?e = "EvExecuteChaincode (ctx0\<lparr>TXSimulatorKey := Some (TxSimulator 0)\<rparr>)
           (NewCCContext ''ch1'' ''escc'' ''1.1.0'' ''tx1'' True sp0 prop0)
           [[], ''hdr'', ''payload'', ''mycc:1.0'', ''OK'', ''pub'', [], []]
           (Inr (Some res200, None))"
  let ?s = "\<lparr>world = (0::nat), trace = [?e]\<rparr>"
  let ?c = "\<lparr>Path = [], Name = ''mycc'', Version = ''1.0''\<rparr>"
  have run: "endorseProposal peer0 ctx0 ''ch1'' ''tx1'' sp0 prop0 (Some res200) ''pub'' None []
       mycc (Some (TxSimulator 0)) (Some cd0) (init 0) = ((Ok (Some endorsed), ?c), ?s)"
    by (simp add: model_defs peer_defs)
  have h1: "cd_Endorsement cd0 \<noteq> []" by (simp add: cd0_def)
  have h2: "GetBytesResponse peer0 (Some res200) = Inr ''OK''" by (simp add: peer_defs)
  have h3: "Marshal peer0 ?c = Inr ''mycc:1.0''" by (simp add: peer_defs)
  have mem: "\<exists>c cc a x. EvExecuteChaincode c cc a x \<in> set (trace ?s)" by auto
  from endorseProposal_sets_ccid_version [OF run] mem
  have "?c = mycc\<lparr>Version := (case Some cd0 of None \<Rightarrow> GetSysCCVersion peer0
                                  | Some d \<Rightarrow> CCVersion d)\<rparr>"
    by blast
  then have "mycc\<lparr>Version := CCVersion cd0\<rparr> = ?c" by simp
  with run h1 h2 h3 show ?thesis by simp
qed

end
